theory Spec2Isabelle
  imports Main
begin

section \<open>supervisorapi.py: the Supervisor REST client\<close>

text \<open>
  Values decoded by \<open>response.json()\<close>. Python's \<open>None\<close> is \<open>JNull\<close>; a decoded
  object is a dictionary, kept as an association list read with \<open>map_of\<close>.
\<close>

datatype json =
    JNull
  | JBool bool
  | JNum int
  | JStr string
  | JList "json list"
  | JDict "(string \<times> json) list"

text \<open>The exceptions of the module: its own \<open>SupervisorAPIError\<close>, and the
  \<open>AttributeError\<close> Python raises for an attribute a value does not have.\<close>

datatype api_exn =
    SupervisorAPIError string
  | AttributeError string
  | OtherRequestException string

text \<open>What \<open>session.get\<close> and \<open>session.post\<close> do: raise one of the transport exceptions
  the helpers catch, raise something else, or return a response. A response has the flag
  \<open>ok\<close> and a body; \<open>json_body = None\<close> stands for a body on which \<open>response.json()\<close>
  raises \<open>ValueError\<close>.\<close>

record response =
  ok :: bool
  json_body :: "json option"

datatype http_outcome =
    RaisesConnectionError string
  | RaisesRetryError string
  | RaisesTimeout
  | RaisesOther string
  | Returns response

record session =
  session_get :: "string \<Rightarrow> http_outcome"
  session_post :: "string \<Rightarrow> http_outcome"

definition BASE_URL :: string where
  "BASE_URL = ''http://supervisor''"

text \<open>The body shared by \<open>_get\<close> and \<open>_post\<close> after the request: the three \<open>except\<close>
  clauses and the \<open>else\<close> branch, in the source's order.\<close>

definition handle_outcome :: "http_outcome \<Rightarrow> api_exn + json" where
  "handle_outcome out =
     (case out of
        RaisesConnectionError err \<Rightarrow>
          Inl (SupervisorAPIError (''Error connecting to Home Assistant Supervisor API: '' @ err))
      | RaisesRetryError err \<Rightarrow>
          Inl (SupervisorAPIError (''Error connecting to Home Assistant Supervisor API: '' @ err))
      | RaisesTimeout \<Rightarrow>
          Inl (SupervisorAPIError ''Timeout connecting to Home Assistant Supervisor API'')
      | RaisesOther err \<Rightarrow> Inl (OtherRequestException err)
      | Returns r \<Rightarrow>
          (if ok r then
             (case json_body r of
                None \<Rightarrow> Inl (SupervisorAPIError ''Error decoding response from Home Assistant Supervisor API'')
              | Some j \<Rightarrow> Inr j)
           else Inr JNull))"

definition SupervisorAPI_get :: "session \<Rightarrow> string \<Rightarrow> api_exn + json" where
  "SupervisorAPI_get s path = handle_outcome (session_get s (BASE_URL @ path))"

definition SupervisorAPI_post :: "session \<Rightarrow> string \<Rightarrow> api_exn + json" where
  "SupervisorAPI_post s path = handle_outcome (session_post s (BASE_URL @ path))"

text \<open>\<open>v.get(key, default)\<close>: defined on dictionaries only; on every other value the
  attribute lookup raises \<open>AttributeError\<close>.\<close>

fun py_get :: "json \<Rightarrow> string \<Rightarrow> json \<Rightarrow> api_exn + json" where
  "py_get (JDict kvs) key dflt = Inr (case map_of kvs key of None \<Rightarrow> dflt | Some v \<Rightarrow> v)"
| "py_get JNull key dflt = Inl (AttributeError ''NoneType object has no attribute get'')"
| "py_get v key dflt = Inl (AttributeError ''object has no attribute get'')"

definition get_snapshots :: "session \<Rightarrow> api_exn + json" where
  "get_snapshots s =
     (case SupervisorAPI_get s ''/snapshots'' of
        Inl e \<Rightarrow> Inl e
      | Inr resp \<Rightarrow>
          (case py_get resp ''data'' (JDict []) of
             Inl e \<Rightarrow> Inl e
           | Inr d \<Rightarrow> py_get d ''snapshots'' (JList [])))"

definition get_snapshot :: "session \<Rightarrow> string \<Rightarrow> api_exn + json" where
  "get_snapshot s slug =
     (case SupervisorAPI_get s (''/snapshots/'' @ slug @ ''/info'') of
        Inl e \<Rightarrow> Inl e
      | Inr resp \<Rightarrow> py_get resp ''data'' JNull)"

definition remove_snapshot :: "session \<Rightarrow> string \<Rightarrow> api_exn + bool" where
  "remove_snapshot s slug =
     (case SupervisorAPI_post s (''/snapshots/'' @ slug @ ''/remove'') of
        Inl e \<Rightarrow> Inl e
      | Inr resp \<Rightarrow>
          (case py_get resp ''result'' JNull of
             Inl e \<Rightarrow> Inl e
           | Inr r \<Rightarrow> Inr (if r = JStr ''ok'' then True else False)))"

section \<open>amazon-s3-backup.py: effects and collaborators\<close>

text \<open>
  The program acts through the logger, the S3 client, the filesystem and the directory
  observer. Its runs are modelled as the list of these calls, in order, paired with the
  way the code returns: normally, or with an exception.
\<close>

datatype level = DEBUG | INFO | WARNING | ERROR | CRITICAL

text \<open>One constructor per log statement of the source, carrying the values its f-string
  interpolates.\<close>

datatype message =
    CreatingS3Client
  | ErrorListingObjects string
  | TruncatedResults
  | UploadingFile string
  | UploadedFile string string string
  | S3UploadError string
  | ProcessingNewFile string
  | LocalFileFound string nat
  | LocalFileMismatch string
  | LocalFileNotFound string
  | MonitoringPath string
  | IncorrectArguments "string list"
  | MonitorPathMissing string

text \<open>
  \<open>Log\<close> is a call of \<open>logger.debug/info/warning/critical\<close> (\<open>logger.exception\<close> logs at
  \<open>ERROR\<close>). \<open>S3UploadFile Filename Bucket Key StorageClass\<close> is the call of the
  client's \<open>upload_file\<close>; \<open>GetSize p n\<close> a call of \<open>os.path.getsize(p)\<close> that returned
  \<open>n\<close>; \<open>Sleep\<close> is \<open>time.sleep(1)\<close>; \<open>ObserverSchedule p r\<close> is
  \<open>event_observer.schedule(handler, p, recursive=r)\<close>.
\<close>

datatype effect =
    Log level message
  | Boto3Client string
  | ListObjectsV2 string
  | S3UploadFile string string string string
  | GetSize string nat
  | Sleep
  | ObserverSchedule string bool
  | ObserverStart
  | ObserverStop
  | ObserverJoin

datatype exn =
    PyException
  | SystemExit nat
  | ClientError string
  | UploadError string
  | NotADirectoryError string

text \<open>A computation: the calls it made, and its return value or the exception it raised.\<close>

type_synonym 'a io = "effect list \<times> (exn + 'a)"

definition return_io :: "'a \<Rightarrow> 'a io" where
  "return_io x = ([], Inr x)"

definition raise_io :: "exn \<Rightarrow> 'a io" where
  "raise_io e = ([], Inl e)"

definition emit :: "effect list \<Rightarrow> unit io" where
  "emit es = (es, Inr ())"

text \<open>Sequencing: the second computation runs only when the first returned.\<close>

definition bind_io :: "'a io \<Rightarrow> ('a \<Rightarrow> 'b io) \<Rightarrow> 'b io" where
  "bind_io m f =
     (case m of
        (tr, Inl e) \<Rightarrow> (tr, Inl e)
      | (tr, Inr x) \<Rightarrow> (case f x of (tr', r) \<Rightarrow> (tr @ tr', r)))"

subsection \<open>The S3 client\<close>

record s3_object =
  Key :: string
  Size :: nat
  LastModified :: nat

text \<open>The response dictionary of \<open>list_objects_v2\<close>: both keys may be absent.\<close>

record list_response =
  IsTruncated :: "bool option"
  Contents :: "s3_object list option"

datatype list_outcome =
    RaisesNoSuchBucket string
  | RaisesClientError string
  | ListResponse list_response

datatype upload_outcome =
    UploadOk
  | RaisesS3UploadFailedError string
  | RaisesUploadOther string

text \<open>The boto3 client, as what its two methods answer. \<open>client_upload_file\<close> takes
  \<open>Filename\<close>, \<open>Bucket\<close>, \<open>Key\<close> and the storage class of \<open>ExtraArgs\<close>.\<close>

record s3_client =
  list_objects_v2 :: "string \<Rightarrow> list_outcome"
  client_upload_file :: "string \<Rightarrow> string \<Rightarrow> string \<Rightarrow> string \<Rightarrow> upload_outcome"

subsection \<open>Paths\<close>

text \<open>\<open>Path(d, f)\<close> rendered by \<open>str\<close>, and \<open>Path(p).name\<close>: the last component of a
  path, after its trailing separators are dropped.\<close>

definition path_join :: "string \<Rightarrow> string \<Rightarrow> string" where
  "path_join d f = d @ ''/'' @ f"

definition path_name :: "string \<Rightarrow> string" where
  "path_name p =
     rev (takeWhile (\<lambda>c. c \<noteq> CHR ''/'') (dropWhile (\<lambda>c. c = CHR ''/'') (rev p)))"

section \<open>class S3Bucket\<close>

record S3Bucket =
  bucket_name :: string
  storage_class :: string
  s3_client :: s3_client

record remote_object =
  obj_name :: string
  obj_size :: nat
  obj_last_modified :: nat

definition S3Bucket_init :: "(string \<Rightarrow> s3_client) \<Rightarrow> string \<Rightarrow> string \<Rightarrow> string \<Rightarrow> S3Bucket io" where
  "S3Bucket_init boto3_client bucket_name' bucket_region storage_class' =
     ([Log DEBUG CreatingS3Client, Boto3Client bucket_region],
      Inr \<lparr>bucket_name = bucket_name', storage_class = storage_class',
           s3_client = boto3_client bucket_region\<rparr>)"

definition list_bucket :: "S3Bucket \<Rightarrow> remote_object list io" where
  "list_bucket self =
     (case list_objects_v2 (s3_client self) (bucket_name self) of
        RaisesNoSuchBucket err \<Rightarrow>
          ([ListObjectsV2 (bucket_name self), Log ERROR (ErrorListingObjects err)], Inl PyException)
      | RaisesClientError err \<Rightarrow>
          ([ListObjectsV2 (bucket_name self)], Inl (ClientError err))
      | ListResponse response \<Rightarrow>
          ([ListObjectsV2 (bucket_name self)] @
           (if IsTruncated response = Some True then [Log WARNING TruncatedResults] else []),
           Inr (map (\<lambda>obj. \<lparr>obj_name = Key obj, obj_size = Size obj,
                             obj_last_modified = LastModified obj\<rparr>)
                  (case Contents response of None \<Rightarrow> [] | Some objs \<Rightarrow> objs))))"

definition upload_file :: "S3Bucket \<Rightarrow> string \<Rightarrow> unit io" where
  "upload_file self file =
     (let file_name = path_name file;
          call = [Log INFO (UploadingFile file),
                  S3UploadFile file (bucket_name self) file_name (storage_class self)]
      in case client_upload_file (s3_client self) file (bucket_name self) file_name
                (storage_class self) of
           UploadOk \<Rightarrow>
             (call @ [Log INFO (UploadedFile file_name (bucket_name self) (storage_class self))],
              Inr ())
         | RaisesS3UploadFailedError err \<Rightarrow> (call @ [Log ERROR (S3UploadError err)], Inr ())
         | RaisesUploadOther err \<Rightarrow> (call, Inl (UploadError err)))"

section \<open>class BackupEventHandler\<close>

datatype event_type = Created | Modified | Deleted | Moved | Closed

record fs_event =
  event_type :: event_type
  src_path :: string
  is_directory :: bool

text \<open>
  \<open>BACKUP_REGEX = [r".+\.tar$"]\<close>. The base class compiles the pattern with
  \<open>re.I\<close> (its \<open>case_sensitive\<close> defaults to false) and tests \<open>r.match(src_path)\<close>. The
  pattern matches from the start of the string: one or more characters other than a
  newline, then \<open>.tar\<close> in either case, then \<open>$\<close>, which holds at the end of the string
  and just before a newline that ends the string.
\<close>

definition lower_char :: "char \<Rightarrow> char" where
  "lower_char c =
     (case map_of (zip ''ABCDEFGHIJKLMNOPQRSTUVWXYZ'' ''abcdefghijklmnopqrstuvwxyz'') c of
        Some d \<Rightarrow> d
      | None \<Rightarrow> c)"

definition lower :: "string \<Rightarrow> string" where
  "lower s = map lower_char s"

definition tar_to_end :: "string \<Rightarrow> bool" where
  "tar_to_end s =
     (4 < length s \<and>
      lower (drop (length s - 4) s) = ''.tar'' \<and>
      CHR 0x0A \<notin> set (take (length s - 4) s))"

definition BACKUP_REGEX_match :: "string \<Rightarrow> bool" where
  "BACKUP_REGEX_match s =
     (tar_to_end s \<or> (s \<noteq> [] \<and> last s = CHR 0x0A \<and> tar_to_end (butlast s)))"

text \<open>
  The \<open>while\<close> loop of \<open>process\<close>. \<open>getsize k\<close> is what the \<open>k\<close>-th call of
  \<open>os.path.getsize(event.src_path)\<close> returns, \<open>n\<close> the number of calls made so far.
  Each round calls it twice: once in the loop test and once in the body, and sleeps after
  the second. A loop that never ends is \<open>None\<close>.
\<close>

partial_function (option) stability_loop ::
  "string \<Rightarrow> (nat \<Rightarrow> nat) \<Rightarrow> nat \<Rightarrow> int \<Rightarrow> effect list \<Rightarrow> effect list option" where
  [code]: "stability_loop p getsize n file_size tr =
     (if file_size \<noteq> int (getsize n)
      then stability_loop p getsize (n + 2) (int (getsize (n + 1)))
             (tr @ [GetSize p (getsize n), GetSize p (getsize (n + 1)), Sleep])
      else Some (tr @ [GetSize p (getsize n)]))"

definition process :: "S3Bucket \<Rightarrow> (nat \<Rightarrow> nat) \<Rightarrow> fs_event \<Rightarrow> unit io option" where
  "process s3_bucket getsize event =
     (case stability_loop (src_path event) getsize 0 (- 1) [] of
        None \<Rightarrow> None
      | Some polled \<Rightarrow>
          Some (bind_io (emit (Log INFO (ProcessingNewFile (src_path event)) # polled))
                  (\<lambda>_. upload_file s3_bucket (src_path event))))"

definition on_created :: "S3Bucket \<Rightarrow> (nat \<Rightarrow> nat) \<Rightarrow> fs_event \<Rightarrow> unit io option" where
  "on_created s3_bucket getsize event = process s3_bucket getsize event"

text \<open>\<open>RegexMatchingEventHandler.dispatch\<close>: an event whose path no pattern matches is
  dropped; a matching one goes to the method of its type, and the class overrides
  \<open>on_created\<close> only.\<close>

definition dispatch :: "S3Bucket \<Rightarrow> (nat \<Rightarrow> nat) \<Rightarrow> fs_event \<Rightarrow> unit io option" where
  "dispatch s3_bucket getsize event =
     (if BACKUP_REGEX_match (src_path event) then
        (case event_type event of
           Created \<Rightarrow> on_created s3_bucket getsize event
         | _ \<Rightarrow> Some (return_io ()))
      else Some (return_io ()))"

section \<open>class FileWatcher\<close>

record FileWatcher =
  monitor_path :: string
  event_handler :: S3Bucket

definition FileWatcher_init :: "string \<Rightarrow> S3Bucket \<Rightarrow> FileWatcher" where
  "FileWatcher_init monitor_path' s3_bucket =
     \<lparr>monitor_path = monitor_path', event_handler = s3_bucket\<rparr>"

definition schedule :: "FileWatcher \<Rightarrow> unit io" where
  "schedule self = emit [ObserverSchedule (monitor_path self) True]"

definition start :: "FileWatcher \<Rightarrow> unit io" where
  "start self = bind_io (schedule self) (\<lambda>_. emit [ObserverStart])"

definition stop :: "FileWatcher \<Rightarrow> unit io" where
  "stop self = emit [ObserverStop, ObserverJoin]"

text \<open>\<open>run\<close> sleeps in \<open>while True\<close> until \<open>KeyboardInterrupt\<close>. \<open>interrupt = Some k\<close>: the
  interrupt arrives after \<open>k\<close> sleeps; \<open>None\<close>: it never arrives and \<open>run\<close> does not return.\<close>

definition run :: "FileWatcher \<Rightarrow> nat option \<Rightarrow> unit io option" where
  "run self interrupt =
     (case interrupt of
        None \<Rightarrow> None
      | Some k \<Rightarrow>
          Some (bind_io (start self)
                  (\<lambda>_. bind_io (emit (replicate k Sleep)) (\<lambda>_. stop self))))"

section \<open>The main program\<close>

text \<open>The filesystem under a directory: regular files and subdirectories, by name.\<close>

datatype node = File string | Dir string "node list"

fun node_name :: "node \<Rightarrow> string" where
  "node_name (File n) = n"
| "node_name (Dir n cs) = n"

fun is_file :: "node \<Rightarrow> bool" where
  "is_file (File n) = True"
| "is_file (Dir n cs) = False"

text \<open>The world the program starts in: the boto3 client for a region, the node at a
  path (\<open>None\<close>: the path does not exist), \<open>stat().st_size\<close> of a path, and the moment of
  the interrupt.\<close>

record env =
  boto3_client :: "string \<Rightarrow> s3_client"
  lookup :: "string \<Rightarrow> node option"
  st_size :: "string \<Rightarrow> nat"
  interrupt :: "nat option"

definition path_exists :: "env \<Rightarrow> string \<Rightarrow> bool" where
  "path_exists e p = (lookup e p \<noteq> None)"

definition iterdir :: "env \<Rightarrow> string \<Rightarrow> node list io" where
  "iterdir e p =
     (case lookup e p of
        Some (Dir n children) \<Rightarrow> return_io children
      | _ \<Rightarrow> raise_io (NotADirectoryError p))"

text \<open>Line 182: \<open>True if upload_missing_files.lower() == "true" else False\<close>.\<close>

definition parse_upload_missing_files :: "string \<Rightarrow> bool" where
  "parse_upload_missing_files arg = (if lower arg = ''true'' then True else False)"

text \<open>The body of the reconciliation loop (lines 197 to 212) for one name of
  \<open>local_files\<close>.\<close>

definition reconcile_file ::
  "S3Bucket \<Rightarrow> bool \<Rightarrow> remote_object list \<Rightarrow> string \<Rightarrow> (string \<Rightarrow> nat) \<Rightarrow> string \<Rightarrow> unit io" where
  "reconcile_file s3_bucket upload_missing_files bucket_contents obj_monitor_path stat file =
     (let local_file = path_join obj_monitor_path file;
          local_file_size = stat local_file;
          found = filter (\<lambda>f. obj_name f = file) bucket_contents
      in case found of
           f0 # _ \<Rightarrow>
             (if local_file_size = obj_size f0
              then emit [Log DEBUG (LocalFileFound local_file local_file_size)]
              else bind_io (emit [Log WARNING (LocalFileMismatch local_file)])
                     (\<lambda>_. upload_file s3_bucket local_file))
         | [] \<Rightarrow>
             bind_io (emit [Log WARNING (LocalFileNotFound local_file)])
               (\<lambda>_. if upload_missing_files then upload_file s3_bucket local_file
                     else return_io ()))"

fun reconcile ::
  "S3Bucket \<Rightarrow> bool \<Rightarrow> remote_object list \<Rightarrow> string \<Rightarrow> (string \<Rightarrow> nat) \<Rightarrow> string list \<Rightarrow> unit io" where
  "reconcile s3_bucket upload_missing_files bucket_contents obj_monitor_path stat [] =
     return_io ()"
| "reconcile s3_bucket upload_missing_files bucket_contents obj_monitor_path stat (file # files) =
     bind_io (reconcile_file s3_bucket upload_missing_files bucket_contents obj_monitor_path stat file)
       (\<lambda>_. reconcile s3_bucket upload_missing_files bucket_contents obj_monitor_path stat files)"

definition local_files :: "node list \<Rightarrow> string list" where
  "local_files children = map node_name (filter is_file children)"

text \<open>Lines 188 to 191: any exception of \<open>list_bucket\<close> becomes \<open>sys.exit(1)\<close>.\<close>

definition list_bucket_or_exit :: "S3Bucket \<Rightarrow> remote_object list io" where
  "list_bucket_or_exit s3_bucket =
     (case list_bucket s3_bucket of
        (tr, Inl e) \<Rightarrow> (tr, Inl (SystemExit 1))
      | (tr, Inr bucket_contents) \<Rightarrow> (tr, Inr bucket_contents))"

text \<open>Sequencing into a computation that may not return.\<close>

definition bind_opt :: "'a io \<Rightarrow> ('a \<Rightarrow> 'b io option) \<Rightarrow> 'b io option" where
  "bind_opt m f =
     (case m of
        (tr, Inl e) \<Rightarrow> Some (tr, Inl e)
      | (tr, Inr x) \<Rightarrow>
          (case f x of None \<Rightarrow> None | Some (tr', r) \<Rightarrow> Some (tr @ tr', r)))"

text \<open>The \<open>__main__\<close> block after \<open>set_log_level\<close>, on \<open>sys.argv\<close>. Returning \<open>Inr ()\<close> is
  the end of the script, exit status 0; \<open>Inl (SystemExit 1)\<close> is \<open>sys.exit(1)\<close>.\<close>

definition main :: "env \<Rightarrow> string list \<Rightarrow> unit io option" where
  "main e argv =
     (if length argv \<noteq> 6 then Some (emit [Log CRITICAL (IncorrectArguments argv)])
      else
        (let monitor_path' = argv ! 1;
             bucket_name' = argv ! 2;
             bucket_region = argv ! 3;
             storage_class' = argv ! 4;
             upload_missing_files = parse_upload_missing_files (argv ! 5)
         in bind_opt (S3Bucket_init (boto3_client e) bucket_name' bucket_region storage_class')
              (\<lambda>s3_bucket.
                 if path_exists e monitor_path' then
                   bind_opt (list_bucket_or_exit s3_bucket) (\<lambda>bucket_contents.
                   bind_opt (iterdir e monitor_path') (\<lambda>children.
                   bind_opt (reconcile s3_bucket upload_missing_files bucket_contents
                               monitor_path' (st_size e) (local_files children)) (\<lambda>_.
                   bind_opt (emit [Log INFO (MonitoringPath monitor_path')]) (\<lambda>_.
                   run (FileWatcher_init monitor_path' s3_bucket) (interrupt e)))))
                 else Some (emit [Log CRITICAL (MonitorPathMissing monitor_path')]))))"

section \<open>Reading a run\<close>

text \<open>The calls of the client's \<open>upload_file\<close> in a run, and those for one local path.\<close>

fun is_upload :: "effect \<Rightarrow> bool" where
  "is_upload (S3UploadFile f b k c) = True"
| "is_upload e = False"

fun is_upload_of :: "string \<Rightarrow> effect \<Rightarrow> bool" where
  "is_upload_of p (S3UploadFile f b k c) = (f = p)"
| "is_upload_of p e = False"

definition uploads :: "effect list \<Rightarrow> effect list" where
  "uploads tr = filter is_upload tr"

definition upload_calls :: "string \<Rightarrow> effect list \<Rightarrow> effect list" where
  "upload_calls p tr = filter (is_upload_of p) tr"

text \<open>The rounds of the polling loop written out: \<open>poll_rounds p g n k\<close> are \<open>k\<close> rounds
  starting at read \<open>n\<close>, and \<open>poll_trace p g k\<close> is a loop that leaves at the test after
  round \<open>k\<close>, rounds counted from 0.\<close>

fun poll_rounds :: "string \<Rightarrow> (nat \<Rightarrow> nat) \<Rightarrow> nat \<Rightarrow> nat \<Rightarrow> effect list" where
  "poll_rounds p g n 0 = []"
| "poll_rounds p g n (Suc k) =
     [GetSize p (g n), GetSize p (g (n + 1)), Sleep] @ poll_rounds p g (n + 2) k"

definition poll_trace :: "string \<Rightarrow> (nat \<Rightarrow> nat) \<Rightarrow> nat \<Rightarrow> effect list" where
  "poll_trace p g k = poll_rounds p g 0 (Suc k) @ [GetSize p (g (2 * k + 2))]"

text \<open>The sizes the calls of \<open>os.path.getsize\<close> returned, in the order of the calls.\<close>

fun reads :: "effect list \<Rightarrow> nat list" where
  "reads [] = []"
| "reads (GetSize p n # tr) = n # reads tr"
| "reads (e # tr) = reads tr"

text \<open>The paths the reconciliation loop decided on, read off its three log statements.\<close>

fun considered :: "effect list \<Rightarrow> string list" where
  "considered [] = []"
| "considered (Log l (LocalFileFound p n) # tr) = p # considered tr"
| "considered (Log l (LocalFileMismatch p) # tr) = p # considered tr"
| "considered (Log l (LocalFileNotFound p) # tr) = p # considered tr"
| "considered (e # tr) = considered tr"

text \<open>The subscriptions of a run: the path and the \<open>recursive\<close> flag of each call of
  \<open>event_observer.schedule\<close>.\<close>

fun schedules :: "effect list \<Rightarrow> (string \<times> bool) list" where
  "schedules [] = []"
| "schedules (ObserverSchedule p r # tr) = (p, r) # schedules tr"
| "schedules (e # tr) = schedules tr"

section \<open>An example world\<close>

text \<open>A client whose two methods answer the same to every call, a bucket on it, and a
  backup directory with three files and a subdirectory: \<open>a.tar\<close> has 100 bytes, every
  other file 200.\<close>

definition example_client :: "upload_outcome \<Rightarrow> list_outcome \<Rightarrow> s3_client" where
  "example_client up ls =
     \<lparr>list_objects_v2 = (\<lambda>b. ls), client_upload_file = (\<lambda>f b k c. up)\<rparr>"

definition example_bucket :: "upload_outcome \<Rightarrow> S3Bucket" where
  "example_bucket up =
     \<lparr>bucket_name = ''backups'', storage_class = ''STANDARD'',
      s3_client = example_client up (RaisesNoSuchBucket ''backups'')\<rparr>"

definition example_stat :: "string \<Rightarrow> nat" where
  "example_stat p = (if p = ''/backup/a.tar'' then 100 else 200)"

definition example_env :: "upload_outcome \<Rightarrow> list_outcome \<Rightarrow> env" where
  "example_env up ls =
     \<lparr>boto3_client = (\<lambda>region. example_client up ls),
      lookup = (\<lambda>p. if p = ''/backup''
                    then Some (Dir ''backup'' [File ''a.tar'', File ''b.tar'', File ''notes.txt'',
                                              Dir ''old'' [File ''c.tar'']])
                    else None),
      st_size = example_stat,
      interrupt = Some 0\<rparr>"

definition example_argv :: "string \<Rightarrow> string list" where
  "example_argv flag =
     [''amazon-s3-backup.py'', ''/backup'', ''backups'', ''us-east-1'', ''STANDARD'', flag]"

section \<open>Theorems\<close>

subsection \<open>The Supervisor client on an unsuccessful response\<close>

lemma handle_outcome_not_ok: "\<not> ok r \<Longrightarrow> handle_outcome (Returns r) = Inr JNull"
  by (simp add: handle_outcome_def)

text \<open>
  C10. When the request completes without a transport exception and \<open>response.ok\<close> is
  false, \<open>_get\<close> and \<open>_post\<close> return \<open>None\<close>, and each of \<open>get_snapshots\<close>,
  \<open>get_snapshot\<close> and \<open>remove_snapshot\<close> then raises \<open>AttributeError\<close> from calling
  \<open>.get\<close> on \<open>None\<close>: neither a \<open>SupervisorAPIError\<close> nor a default value.
\<close>

theorem unsuccessful_response_raises_AttributeError:
  "(session_get s (BASE_URL @ ''/snapshots'') = Returns r1 \<and> \<not> ok r1 \<longrightarrow>
      SupervisorAPI_get s ''/snapshots'' = Inr JNull \<and>
      get_snapshots s = Inl (AttributeError ''NoneType object has no attribute get'')) \<and>
   (session_get s (BASE_URL @ ''/snapshots/'' @ slug @ ''/info'') = Returns r2 \<and> \<not> ok r2 \<longrightarrow>
      SupervisorAPI_get s (''/snapshots/'' @ slug @ ''/info'') = Inr JNull \<and>
      get_snapshot s slug = Inl (AttributeError ''NoneType object has no attribute get'')) \<and>
   (session_post s (BASE_URL @ ''/snapshots/'' @ slug @ ''/remove'') = Returns r3 \<and> \<not> ok r3 \<longrightarrow>
      SupervisorAPI_post s (''/snapshots/'' @ slug @ ''/remove'') = Inr JNull \<and>
      remove_snapshot s slug = Inl (AttributeError ''NoneType object has no attribute get''))"
  by (simp add: SupervisorAPI_get_def SupervisorAPI_post_def get_snapshots_def
      get_snapshot_def remove_snapshot_def handle_outcome_not_ok)

text \<open>A session that answers every request with status 404 and a JSON error body.\<close>

theorem unsuccessful_response_raises_AttributeError_witness:
  "get_snapshots \<lparr>session_get = (\<lambda>u. Returns \<lparr>ok = False, json_body = Some (JDict [(''result'', JStr ''error'')])\<rparr>),
                  session_post = (\<lambda>u. Returns \<lparr>ok = False, json_body = None\<rparr>)\<rparr>
     = Inl (AttributeError ''NoneType object has no attribute get'') \<and>
   get_snapshot \<lparr>session_get = (\<lambda>u. Returns \<lparr>ok = False, json_body = Some (JDict [(''result'', JStr ''error'')])\<rparr>),
                 session_post = (\<lambda>u. Returns \<lparr>ok = False, json_body = None\<rparr>)\<rparr> ''a1b2c3''
     = Inl (AttributeError ''NoneType object has no attribute get'') \<and>
   remove_snapshot \<lparr>session_get = (\<lambda>u. Returns \<lparr>ok = False, json_body = Some (JDict [(''result'', JStr ''error'')])\<rparr>),
                    session_post = (\<lambda>u. Returns \<lparr>ok = False, json_body = None\<rparr>)\<rparr> ''a1b2c3''
     = Inl (AttributeError ''NoneType object has no attribute get'')"
  using unsuccessful_response_raises_AttributeError
    [of "\<lparr>session_get = (\<lambda>u. Returns \<lparr>ok = False, json_body = Some (JDict [(''result'', JStr ''error'')])\<rparr>),
         session_post = (\<lambda>u. Returns \<lparr>ok = False, json_body = None\<rparr>)\<rparr>"
        "\<lparr>ok = False, json_body = Some (JDict [(''result'', JStr ''error'')])\<rparr>"
        "''a1b2c3''"
        "\<lparr>ok = False, json_body = Some (JDict [(''result'', JStr ''error'')])\<rparr>"
        "\<lparr>ok = False, json_body = None\<rparr>"]
  by simp

subsection \<open>The stability detector\<close>

text \<open>From a state in which \<open>file_size\<close> holds the read before the sleep, the loop runs
  through every round whose two reads across the sleep differ.\<close>

lemma stability_loop_skip:
  "(\<forall>j<k. g (n + 2 * j + 1) \<noteq> g (n + 2 * j)) \<Longrightarrow>
   stability_loop p g (n + 1) (int (g n)) tr =
   stability_loop p g (n + 2 * k + 1) (int (g (n + 2 * k))) (tr @ poll_rounds p g (n + 1) k)"
proof (induction k arbitrary: n tr)
  case 0
  then show ?case by simp
next
  case (Suc k)
  have ne: "g (n + 1) \<noteq> g n" using Suc.prems by (metis add.right_neutral mult_zero_right zero_less_Suc)
  have rest: "\<forall>j<k. g (n + 2 + 2 * j + 1) \<noteq> g (n + 2 + 2 * j)"
  proof (intro allI impI)
    fix j assume "j < k"
    then have "Suc j < Suc k" by simp
    from Suc.prems[rule_format, OF this] show "g (n + 2 + 2 * j + 1) \<noteq> g (n + 2 + 2 * j)"
      by (simp add: add.commute add.left_commute)
  qed
  have "stability_loop p g (n + 1) (int (g n)) tr =
        stability_loop p g (n + 2 + 1) (int (g (n + 2))) (tr @ [GetSize p (g (n + 1)), GetSize p (g (n + 2)), Sleep])"
    using ne by (subst stability_loop.simps) (simp add: add.commute add.left_commute numeral_3_eq_3)
  also have "\<dots> = stability_loop p g (n + 2 + 2 * k + 1) (int (g (n + 2 + 2 * k)))
        ((tr @ [GetSize p (g (n + 1)), GetSize p (g (n + 2)), Sleep]) @ poll_rounds p g (n + 2 + 1) k)"
    by (rule Suc.IH[OF rest])
  finally show ?case by (simp add: add.commute add.left_commute numeral_3_eq_3)
qed

lemma stability_loop_stop:
  "g (n + 1) = g n \<Longrightarrow> stability_loop p g (n + 1) (int (g n)) tr = Some (tr @ [GetSize p (g (n + 1))])"
  by (subst stability_loop.simps) simp

lemma stability_loop_Some_stable:
  assumes "stability_loop p g m fs tr = Some y"
  shows "fs = int (g m) \<or> (\<exists>k. g (m + 2 * k + 2) = g (m + 2 * k + 1))"
proof (rule stability_loop.raw_induct
    [where P = "\<lambda>p g m fs tr y. fs = int (g m) \<or> (\<exists>k. g (m + 2 * k + 2) = g (m + 2 * k + 1))",
     OF _ assms])
  fix loop :: "string \<Rightarrow> (nat \<Rightarrow> nat) \<Rightarrow> nat \<Rightarrow> int \<Rightarrow> effect list \<Rightarrow> effect list option"
  fix p g m fs tr y
  assume IH: "\<And>g m fs tr b y. loop g m fs tr b = Some y \<Longrightarrow>
                 tr = int (m fs) \<or> (\<exists>k. m (fs + 2 * k + 2) = m (fs + 2 * k + 1))"
    and step: "(if fs \<noteq> int (g m)
                then loop p g (m + 2) (int (g (m + 1)))
                       (tr @ [GetSize p (g m), GetSize p (g (m + 1)), Sleep])
                else Some (tr @ [GetSize p (g m)])) = Some y"
  show "fs = int (g m) \<or> (\<exists>k. g (m + 2 * k + 2) = g (m + 2 * k + 1))"
  proof (cases "fs = int (g m)")
    case True
    then show ?thesis by simp
  next
    case False
    with step have "loop p g (m + 2) (int (g (m + 1)))
                      (tr @ [GetSize p (g m), GetSize p (g (m + 1)), Sleep]) = Some y"
      by simp
    from IH[OF this]
    have "int (g (m + 1)) = int (g (m + 2)) \<or>
          (\<exists>k. g (m + 2 + 2 * k + 2) = g (m + 2 + 2 * k + 1))" .
    then show ?thesis
    proof
      assume "int (g (m + 1)) = int (g (m + 2))"
      then have "g (m + 2 * 0 + 2) = g (m + 2 * 0 + 1)" by simp
      then show ?thesis by blast
    next
      assume "\<exists>k. g (m + 2 + 2 * k + 2) = g (m + 2 + 2 * k + 1)"
      then obtain k where "g (m + 2 + 2 * k + 2) = g (m + 2 + 2 * k + 1)" ..
      then have "g (m + 2 * Suc k + 2) = g (m + 2 * Suc k + 1)"
        by (simp add: add.commute add.left_commute)
      then show ?thesis by blast
    qed
  qed
qed

lemma stability_loop_first_round:
  "stability_loop p g 0 (- 1) [] =
   stability_loop p g (1 + 1) (int (g 1)) [GetSize p (g 0), GetSize p (g 1), Sleep]"
  by (subst stability_loop.simps) simp

lemma stability_loop_leaves:
  assumes "\<forall>j<k. g (2 * j + 2) \<noteq> g (2 * j + 1)" and "g (2 * k + 2) = g (2 * k + 1)"
  shows "stability_loop p g 0 (- 1) [] = Some (poll_trace p g k)"
proof -
  have skip: "\<forall>j<k. g (1 + 2 * j + 1) \<noteq> g (1 + 2 * j)"
    using assms(1) by (simp add: add.commute)
  have stop: "g (1 + 2 * k + 1) = g (1 + 2 * k)"
    using assms(2) by (simp add: add.commute)
  have "stability_loop p g 0 (- 1) [] =
        stability_loop p g (1 + 2 * k + 1) (int (g (1 + 2 * k)))
          ([GetSize p (g 0), GetSize p (g 1), Sleep] @ poll_rounds p g (1 + 1) k)"
    unfolding stability_loop_first_round by (rule stability_loop_skip[OF skip])
  also have "\<dots> = Some (([GetSize p (g 0), GetSize p (g 1), Sleep] @ poll_rounds p g (1 + 1) k)
                     @ [GetSize p (g (1 + 2 * k + 1))])"
    by (rule stability_loop_stop[OF stop])
  finally show ?thesis by (simp add: poll_trace_def add.commute)
qed

lemma stability_loop_None:
  assumes "\<forall>k. g (2 * k + 2) \<noteq> g (2 * k + 1)"
  shows "stability_loop p g 0 (- 1) [] = None"
proof (rule ccontr)
  assume "stability_loop p g 0 (- 1) [] \<noteq> None"
  then obtain y where "stability_loop p g 0 (- 1) [] = Some y" by blast
  from stability_loop_Some_stable[OF this]
  have "\<exists>k. g (0 + 2 * k + 2) = g (0 + 2 * k + 1)" by simp
  with assms show False by simp
qed

lemma first_stable_round:
  fixes g :: "nat \<Rightarrow> nat" and k :: nat
  assumes "g (2 * k + 2) = g (2 * k + 1)"
  shows "\<exists>m. (\<forall>j<m. g (2 * j + 2) \<noteq> g (2 * j + 1)) \<and> g (2 * m + 2) = g (2 * m + 1)"
proof -
  let ?P = "\<lambda>k::nat. g (2 * k + 2) = g (2 * k + 1)"
  have "?P (LEAST k. ?P k)" using assms by (rule LeastI)
  moreover have "\<forall>j<(LEAST k. ?P k). \<not> ?P j" using not_less_Least by blast
  ultimately show ?thesis by blast
qed

text \<open>
  C4 (as amended). Each round of the loop reads the size twice, in the loop test and
  again in the body, and sleeps after the second read; what the test compares is the
  read taken before a sleep (read \<open>2k+1\<close>) with the read taken after it (read \<open>2k+2\<close>).
  The loop returns exactly when some such pair is equal, it leaves at the first equal
  pair, having made the calls of \<open>poll_trace\<close> and no others, and it never returns when
  no pair is equal; in particular when the size changes at every read.
\<close>

theorem stability_loop_compares_across_the_sleep:
  "(stability_loop p g 0 (- 1) [] = Some tr \<longleftrightarrow>
      (\<exists>k. (\<forall>j<k. g (2 * j + 2) \<noteq> g (2 * j + 1)) \<and> g (2 * k + 2) = g (2 * k + 1) \<and>
           tr = poll_trace p g k)) \<and>
   (stability_loop p g 0 (- 1) [] = None \<longleftrightarrow> (\<forall>k. g (2 * k + 2) \<noteq> g (2 * k + 1))) \<and>
   ((\<forall>i. g (i + 1) \<noteq> g i) \<longrightarrow> stability_loop p g 0 (- 1) [] = None)"
proof (intro conjI)
  show "stability_loop p g 0 (- 1) [] = Some tr \<longleftrightarrow>
      (\<exists>k. (\<forall>j<k. g (2 * j + 2) \<noteq> g (2 * j + 1)) \<and> g (2 * k + 2) = g (2 * k + 1) \<and>
           tr = poll_trace p g k)"
  proof
    assume some: "stability_loop p g 0 (- 1) [] = Some tr"
    from stability_loop_Some_stable[OF this]
    obtain k where "g (2 * k + 2) = g (2 * k + 1)" by auto
    from first_stable_round[OF this] obtain m where
      m: "\<forall>j<m. g (2 * j + 2) \<noteq> g (2 * j + 1)" "g (2 * m + 2) = g (2 * m + 1)" by blast
    from stability_loop_leaves[OF m] some have "tr = poll_trace p g m" by simp
    with m show "\<exists>k. (\<forall>j<k. g (2 * j + 2) \<noteq> g (2 * j + 1)) \<and> g (2 * k + 2) = g (2 * k + 1) \<and>
           tr = poll_trace p g k" by blast
  next
    assume "\<exists>k. (\<forall>j<k. g (2 * j + 2) \<noteq> g (2 * j + 1)) \<and> g (2 * k + 2) = g (2 * k + 1) \<and>
           tr = poll_trace p g k"
    then show "stability_loop p g 0 (- 1) [] = Some tr"
      using stability_loop_leaves by blast
  qed
next
  show "stability_loop p g 0 (- 1) [] = None \<longleftrightarrow> (\<forall>k. g (2 * k + 2) \<noteq> g (2 * k + 1))"
  proof
    assume none: "stability_loop p g 0 (- 1) [] = None"
    show "\<forall>k. g (2 * k + 2) \<noteq> g (2 * k + 1)"
    proof (rule ccontr)
      assume "\<not> (\<forall>k. g (2 * k + 2) \<noteq> g (2 * k + 1))"
      then obtain k where "g (2 * k + 2) = g (2 * k + 1)" by blast
      from first_stable_round[OF this] obtain m where
        m: "\<forall>j<m. g (2 * j + 2) \<noteq> g (2 * j + 1)" "g (2 * m + 2) = g (2 * m + 1)" by blast
      from stability_loop_leaves[OF m] none show False by simp
    qed
  next
    assume "\<forall>k. g (2 * k + 2) \<noteq> g (2 * k + 1)"
    then show "stability_loop p g 0 (- 1) [] = None" by (rule stability_loop_None)
  qed
next
  show "(\<forall>i. g (i + 1) \<noteq> g i) \<longrightarrow> stability_loop p g 0 (- 1) [] = None"
  proof
    assume a: "\<forall>i. g (i + 1) \<noteq> g i"
    have "\<forall>k. g (2 * k + 2) \<noteq> g (2 * k + 1)"
    proof
      fix k from a have "g ((2 * k + 1) + 1) \<noteq> g (2 * k + 1)" by blast
      then show "g (2 * k + 2) \<noteq> g (2 * k + 1)" by (simp add: add.assoc)
    qed
    then show "stability_loop p g 0 (- 1) [] = None" by (rule stability_loop_None)
  qed
qed

text \<open>A file read as 5, 5, 6, 7, 7 is released at the fifth read; a file that grows
  by one at every read is never released.\<close>

theorem stability_loop_compares_across_the_sleep_witness:
  "stability_loop ''/backup/a.tar'' ((!) [5, 5, 6, 7, 7]) 0 (- 1) [] =
     Some [GetSize ''/backup/a.tar'' 5, GetSize ''/backup/a.tar'' 5, Sleep,
           GetSize ''/backup/a.tar'' 6, GetSize ''/backup/a.tar'' 7, Sleep,
           GetSize ''/backup/a.tar'' 7] \<and>
   stability_loop ''/backup/a.tar'' (\<lambda>i. i) 0 (- 1) [] = None"
proof
  have "\<exists>k. (\<forall>j<k. [5, 5, 6, 7, 7 :: nat] ! (2 * j + 2) \<noteq> [5, 5, 6, 7, 7] ! (2 * j + 1)) \<and>
          [5, 5, 6, 7, 7 :: nat] ! (2 * k + 2) = [5, 5, 6, 7, 7] ! (2 * k + 1) \<and>
          [GetSize ''/backup/a.tar'' 5, GetSize ''/backup/a.tar'' 5, Sleep,
           GetSize ''/backup/a.tar'' 6, GetSize ''/backup/a.tar'' 7, Sleep,
           GetSize ''/backup/a.tar'' 7] = poll_trace ''/backup/a.tar'' ((!) [5, 5, 6, 7, 7]) k"
    by (rule exI[of _ 1]) (simp add: poll_trace_def numeral_2_eq_2)
  then show "stability_loop ''/backup/a.tar'' ((!) [5, 5, 6, 7, 7]) 0 (- 1) [] =
     Some [GetSize ''/backup/a.tar'' 5, GetSize ''/backup/a.tar'' 5, Sleep,
           GetSize ''/backup/a.tar'' 6, GetSize ''/backup/a.tar'' 7, Sleep,
           GetSize ''/backup/a.tar'' 7]"
    using stability_loop_compares_across_the_sleep[of "''/backup/a.tar''" "(!) [5, 5, 6, 7, 7]"] by blast
next
  have "\<forall>i::nat. i + 1 \<noteq> i" by simp
  then show "stability_loop ''/backup/a.tar'' (\<lambda>i. i) 0 (- 1) [] = None"
    using stability_loop_compares_across_the_sleep[of "''/backup/a.tar''" "\<lambda>i. i"] by blast
qed

text \<open>
  C4 as stated fails: the claim reads every call as a sample and lets the detector signal
  only at the first sample equal to the one before it. On the reads 5, 5, 6, 7, 7 the
  second read equals the first (both belong to round 0 and are never compared), and the
  loop leaves at the fifth.
\<close>

theorem first_equal_pair_counterexample:
  "\<not> (\<forall>g tr. stability_loop ''/backup/a.tar'' g 0 (- 1) [] = Some tr \<longrightarrow>
         (\<forall>i. 0 < i \<and> i < length (reads tr) - 1 \<longrightarrow> reads tr ! i \<noteq> reads tr ! (i - 1)))"
proof
  assume a: "\<forall>g tr. stability_loop ''/backup/a.tar'' g 0 (- 1) [] = Some tr \<longrightarrow>
         (\<forall>i. 0 < i \<and> i < length (reads tr) - 1 \<longrightarrow> reads tr ! i \<noteq> reads tr ! (i - 1))"
  have run: "stability_loop ''/backup/a.tar'' ((!) [5, 5, 6, 7, 7]) 0 (- 1) [] =
     Some [GetSize ''/backup/a.tar'' 5, GetSize ''/backup/a.tar'' 5, Sleep,
           GetSize ''/backup/a.tar'' 6, GetSize ''/backup/a.tar'' 7, Sleep,
           GetSize ''/backup/a.tar'' 7]"
    by (simp add: stability_loop.simps)
  from a[rule_format, OF run, of 1] show False by simp
qed

subsection \<open>Sequencing\<close>

lemma bind_io_emit [simp]: "bind_io (emit es) f = (es @ fst (f ()), snd (f ()))"
  by (simp add: bind_io_def emit_def split: prod.splits)

lemma fst_return_io [simp]: "fst (return_io x) = []" and snd_return_io [simp]: "snd (return_io x) = Inr x"
  by (simp_all add: return_io_def)

lemma fst_emit [simp]: "fst (emit es) = es" and snd_emit [simp]: "snd (emit es) = Inr ()"
  by (simp_all add: emit_def)

subsection \<open>Paths\<close>

lemma path_join_inject [simp]: "path_join d f = path_join d g \<longleftrightarrow> f = g"
  by (simp add: path_join_def)


subsection \<open>upload_file\<close>

lemma upload_calls_append [simp]: "upload_calls p (xs @ ys) = upload_calls p xs @ upload_calls p ys"
  by (simp add: upload_calls_def)

lemma upload_calls_Nil [simp]: "upload_calls p [] = []"
  by (simp add: upload_calls_def)

lemma upload_calls_Log [simp]: "upload_calls p (Log l m # tr) = upload_calls p tr"
  by (simp add: upload_calls_def)


subsection \<open>The loop body\<close>





subsection \<open>The loop\<close>

lemma reconcile_Cons:
  "reconcile b umf bc mp stat (g # files) =
     (case snd (reconcile_file b umf bc mp stat g) of
        Inl e \<Rightarrow> (fst (reconcile_file b umf bc mp stat g), Inl e)
      | Inr u \<Rightarrow> (fst (reconcile_file b umf bc mp stat g) @ fst (reconcile b umf bc mp stat files),
                  snd (reconcile b umf bc mp stat files)))"
  by (cases "reconcile_file b umf bc mp stat g")
     (auto simp: bind_io_def split: sum.splits prod.splits)

declare reconcile.simps(2) [simp del]





text \<open>The pass returns when no call of the client raises anything but
  \<open>S3UploadFailedError\<close>.\<close>

lemma upload_file_returns:
  "(\<forall>err. client_upload_file (s3_client b) p (bucket_name b) (path_name p) (storage_class b)
            \<noteq> RaisesUploadOther err) \<Longrightarrow> snd (upload_file b p) = Inr ()"
  by (auto simp: upload_file_def Let_def split: upload_outcome.splits)

lemma reconcile_file_returns:
  "(\<forall>p err. client_upload_file (s3_client b) p (bucket_name b) (path_name p) (storage_class b)
            \<noteq> RaisesUploadOther err) \<Longrightarrow> snd (reconcile_file b umf bc mp stat f) = Inr ()"
  by (cases "filter (\<lambda>r. obj_name r = f) bc")
     (auto simp: reconcile_file_def Let_def upload_file_returns)

lemma reconcile_returns:
  "(\<forall>p err. client_upload_file (s3_client b) p (bucket_name b) (path_name p) (storage_class b)
            \<noteq> RaisesUploadOther err) \<Longrightarrow> snd (reconcile b umf bc mp stat files) = Inr ()"
  by (induction files) (simp_all add: reconcile_Cons reconcile_file_returns)



subsection \<open>The startup reconciliation\<close>








subsection \<open>Listing the bucket\<close>

text \<open>
  C5 (as amended). When the response of \<open>list_objects_v2\<close> is truncated, \<open>list_bucket\<close>
  logs a warning and returns the objects of the response, a partial listing, to its
  caller; it does not raise, and the main program goes on with that listing.
\<close>

theorem truncated_listing_warns_and_returns:
  assumes "list_objects_v2 (s3_client b) (bucket_name b) = ListResponse r"
    and "IsTruncated r = Some True"
  shows "list_bucket b =
           ([ListObjectsV2 (bucket_name b), Log WARNING TruncatedResults],
            Inr (map (\<lambda>obj. \<lparr>obj_name = Key obj, obj_size = Size obj,
                              obj_last_modified = LastModified obj\<rparr>)
                   (case Contents r of None \<Rightarrow> [] | Some objs \<Rightarrow> objs))) \<and>
         list_bucket_or_exit b = list_bucket b"
  using assms by (simp add: list_bucket_def list_bucket_or_exit_def)

theorem truncated_listing_warns_and_returns_witness:
  "list_bucket \<lparr>bucket_name = ''backups'', storage_class = ''STANDARD'',
      s3_client = example_client UploadOk
        (ListResponse \<lparr>IsTruncated = Some True,
           Contents = Some [\<lparr>Key = ''b.tar'', Size = 200, LastModified = 0\<rparr>]\<rparr>)\<rparr> =
     ([ListObjectsV2 ''backups'', Log WARNING TruncatedResults],
      Inr [\<lparr>obj_name = ''b.tar'', obj_size = 200, obj_last_modified = 0\<rparr>])"
  using truncated_listing_warns_and_returns
    [of "\<lparr>bucket_name = ''backups'', storage_class = ''STANDARD'',
      s3_client = example_client UploadOk
        (ListResponse \<lparr>IsTruncated = Some True,
           Contents = Some [\<lparr>Key = ''b.tar'', Size = 200, LastModified = 0\<rparr>]\<rparr>)\<rparr>"
        "\<lparr>IsTruncated = Some True,
           Contents = Some [\<lparr>Key = ''b.tar'', Size = 200, LastModified = 0\<rparr>]\<rparr>"]
  by (simp add: example_client_def)

text \<open>
  C5 as stated fails: on a truncated response \<open>list_bucket\<close> does not end in an error. The
  response below is truncated after its first 1000 keys, of which the model keeps one.
\<close>

theorem truncated_listing_raises_counterexample:
  "\<not> (\<forall>b r. list_objects_v2 (s3_client b) (bucket_name b) = ListResponse r \<and>
             IsTruncated r = Some True \<longrightarrow> (\<exists>e. snd (list_bucket b) = Inl e))"
proof
  assume a: "\<forall>b r. list_objects_v2 (s3_client b) (bucket_name b) = ListResponse r \<and>
             IsTruncated r = Some True \<longrightarrow> (\<exists>e. snd (list_bucket b) = Inl e)"
  let ?r = "\<lparr>IsTruncated = Some True,
             Contents = Some [\<lparr>Key = ''a.tar'', Size = 100, LastModified = 0\<rparr>]\<rparr>"
  let ?b = "\<lparr>bucket_name = ''backups'', storage_class = ''STANDARD'',
             s3_client = example_client UploadOk (ListResponse ?r)\<rparr>"
  have "\<exists>e. snd (list_bucket ?b) = Inl e"
    by (rule a[rule_format, of ?b ?r]) (simp add: example_client_def)
  moreover have "snd (list_bucket ?b) =
                   Inr [\<lparr>obj_name = ''a.tar'', obj_size = 100, obj_last_modified = 0\<rparr>]"
    by (simp add: list_bucket_def example_client_def)
  ultimately show False by simp
qed

subsection \<open>A failed upload\<close>

lemma example_bucket_fields:
  "bucket_name (example_bucket up) = ''backups''"
  "storage_class (example_bucket up) = ''STANDARD''"
  "client_upload_file (s3_client (example_bucket up)) f b k c = up"
  by (simp_all add: example_bucket_def example_client_def)


lemma uploads_append [simp]: "uploads (xs @ ys) = uploads xs @ uploads ys"
  by (simp add: uploads_def)

lemma uploads_Nil [simp]: "uploads [] = []"
  by (simp add: uploads_def)

lemma uploads_Cons_Log [simp]: "uploads (Log l m # tr) = uploads tr"
  by (simp add: uploads_def)

lemma uploads_upload_file:
  "uploads (fst (upload_file b p)) =
     [S3UploadFile p (bucket_name b) (path_name p) (storage_class b)]"
  by (auto simp: upload_file_def uploads_def Let_def split: upload_outcome.splits)

lemma uploads_reconcile_file:
  "length (uploads (fst (reconcile_file b umf bc mp stat f))) \<le> 1"
  by (cases "filter (\<lambda>r. obj_name r = f) bc")
     (auto simp: reconcile_file_def Let_def uploads_upload_file)

lemma upload_file_failed:
  assumes "client_upload_file (s3_client b) p (bucket_name b) (path_name p) (storage_class b) =
             RaisesS3UploadFailedError err"
  shows "upload_file b p =
           ([Log INFO (UploadingFile p),
             S3UploadFile p (bucket_name b) (path_name p) (storage_class b),
             Log ERROR (S3UploadError err)], Inr ())"
  using assms by (simp add: upload_file_def Let_def)

lemma reconcile_file_upload_returns:
  assumes "snd (upload_file b (path_join mp f)) = Inr ()"
  shows "snd (reconcile_file b umf bc mp stat f) = Inr ()"
  using assms
  by (cases "filter (\<lambda>r. obj_name r = f) bc") (auto simp: reconcile_file_def Let_def)

text \<open>
  C7. When the client's \<open>upload_file\<close> raises \<open>S3UploadFailedError\<close>, the method
  \<open>upload_file\<close> has made that one call, logs the exception and returns. In the
  reconciliation loop the iteration for that file then returns, with at most one call of
  the client, and the loop goes on with the files after it; in the watch handler
  \<open>process\<close> returns after its one call, once the polling loop has ended.
\<close>

theorem upload_failure_is_logged_not_raised:
  assumes "client_upload_file (s3_client b) p (bucket_name b) (path_name p) (storage_class b) =
             RaisesS3UploadFailedError err"
  shows "upload_file b p =
           ([Log INFO (UploadingFile p),
             S3UploadFile p (bucket_name b) (path_name p) (storage_class b),
             Log ERROR (S3UploadError err)], Inr ()) \<and>
         (p = path_join mp f \<longrightarrow>
            reconcile b umf bc mp stat (f # files) =
              (fst (reconcile_file b umf bc mp stat f) @ fst (reconcile b umf bc mp stat files),
               snd (reconcile b umf bc mp stat files)) \<and>
            length (uploads (fst (reconcile_file b umf bc mp stat f))) \<le> 1) \<and>
         (src_path ev = p \<and> stability_loop p g 0 (- 1) [] = Some polled \<longrightarrow>
            process b g ev =
              Some (Log INFO (ProcessingNewFile p) # polled @
                    [Log INFO (UploadingFile p),
                     S3UploadFile p (bucket_name b) (path_name p) (storage_class b),
                     Log ERROR (S3UploadError err)], Inr ()))"
proof (intro conjI impI)
  show up: "upload_file b p =
           ([Log INFO (UploadingFile p),
             S3UploadFile p (bucket_name b) (path_name p) (storage_class b),
             Log ERROR (S3UploadError err)], Inr ())"
    using assms by (rule upload_file_failed)
  {
    assume "p = path_join mp f"
    then have "snd (upload_file b (path_join mp f)) = Inr ()" using up by simp
    then have "snd (reconcile_file b umf bc mp stat f) = Inr ()"
      by (rule reconcile_file_upload_returns)
    then show "reconcile b umf bc mp stat (f # files) =
              (fst (reconcile_file b umf bc mp stat f) @ fst (reconcile b umf bc mp stat files),
               snd (reconcile b umf bc mp stat files))"
      by (simp add: reconcile_Cons)
    show "length (uploads (fst (reconcile_file b umf bc mp stat f))) \<le> 1"
      by (rule uploads_reconcile_file)
  }
  {
    assume "src_path ev = p \<and> stability_loop p g 0 (- 1) [] = Some polled"
    then show "process b g ev =
              Some (Log INFO (ProcessingNewFile p) # polled @
                    [Log INFO (UploadingFile p),
                     S3UploadFile p (bucket_name b) (path_name p) (storage_class b),
                     Log ERROR (S3UploadError err)], Inr ())"
      by (simp add: process_def up)
  }
qed

text \<open>The bucket rejects every upload. \<open>a.tar\<close> and \<open>notes.txt\<close> are missing from the
  bucket and the flag is set: the upload of \<open>a.tar\<close> fails, the loop goes on to \<open>b.tar\<close>
  and to \<open>notes.txt\<close>, whose upload is attempted in turn, and returns.\<close>

theorem upload_failure_is_logged_not_raised_witness:
  "upload_file (example_bucket (RaisesS3UploadFailedError ''AccessDenied'')) ''/backup/a.tar'' =
     ([Log INFO (UploadingFile ''/backup/a.tar''),
       S3UploadFile ''/backup/a.tar'' ''backups'' ''a.tar'' ''STANDARD'',
       Log ERROR (S3UploadError ''AccessDenied'')], Inr ()) \<and>
   reconcile (example_bucket (RaisesS3UploadFailedError ''AccessDenied'')) True
     [\<lparr>obj_name = ''b.tar'', obj_size = 200, obj_last_modified = 0\<rparr>]
     ''/backup'' example_stat [''a.tar'', ''b.tar'', ''notes.txt''] =
     ([Log WARNING (LocalFileNotFound ''/backup/a.tar''),
       Log INFO (UploadingFile ''/backup/a.tar''),
       S3UploadFile ''/backup/a.tar'' ''backups'' ''a.tar'' ''STANDARD'',
       Log ERROR (S3UploadError ''AccessDenied''),
       Log DEBUG (LocalFileFound ''/backup/b.tar'' 200),
       Log WARNING (LocalFileNotFound ''/backup/notes.txt''),
       Log INFO (UploadingFile ''/backup/notes.txt''),
       S3UploadFile ''/backup/notes.txt'' ''backups'' ''notes.txt'' ''STANDARD'',
       Log ERROR (S3UploadError ''AccessDenied'')], Inr ()) \<and>
   process (example_bucket (RaisesS3UploadFailedError ''AccessDenied'')) (\<lambda>i. 100)
     \<lparr>event_type = Created, src_path = ''/backup/a.tar'', is_directory = False\<rparr> =
     Some ([Log INFO (ProcessingNewFile ''/backup/a.tar''),
            GetSize ''/backup/a.tar'' 100, GetSize ''/backup/a.tar'' 100, Sleep,
            GetSize ''/backup/a.tar'' 100,
            Log INFO (UploadingFile ''/backup/a.tar''),
            S3UploadFile ''/backup/a.tar'' ''backups'' ''a.tar'' ''STANDARD'',
            Log ERROR (S3UploadError ''AccessDenied'')], Inr ())"
proof -
  let ?b = "example_bucket (RaisesS3UploadFailedError ''AccessDenied'')"
  let ?bc = "[\<lparr>obj_name = ''b.tar'', obj_size = 200, obj_last_modified = 0\<rparr>]"
  have fails: "client_upload_file (s3_client ?b) ''/backup/a.tar'' (bucket_name ?b)
                 (path_name ''/backup/a.tar'') (storage_class ?b) =
               RaisesS3UploadFailedError ''AccessDenied''"
    by (simp add: example_bucket_def example_client_def)
  have polled: "stability_loop ''/backup/a.tar'' (\<lambda>i. 100) 0 (- 1) [] =
      Some [GetSize ''/backup/a.tar'' 100, GetSize ''/backup/a.tar'' 100, Sleep,
            GetSize ''/backup/a.tar'' 100]"
    by (simp add: stability_loop.simps)
  have rest: "reconcile ?b True ?bc ''/backup'' example_stat [''b.tar'', ''notes.txt''] =
     ([Log DEBUG (LocalFileFound ''/backup/b.tar'' 200),
       Log WARNING (LocalFileNotFound ''/backup/notes.txt''),
       Log INFO (UploadingFile ''/backup/notes.txt''),
       S3UploadFile ''/backup/notes.txt'' ''backups'' ''notes.txt'' ''STANDARD'',
       Log ERROR (S3UploadError ''AccessDenied'')], Inr ())"
    by (simp add: reconcile.simps(2) reconcile_file_def example_bucket_def example_client_def
        example_stat_def path_join_def path_name_def upload_file_def bind_io_def return_io_def
        emit_def Let_def)
  have body: "fst (reconcile_file ?b True ?bc ''/backup'' example_stat ''a.tar'') =
     [Log WARNING (LocalFileNotFound ''/backup/a.tar''),
       Log INFO (UploadingFile ''/backup/a.tar''),
       S3UploadFile ''/backup/a.tar'' ''backups'' ''a.tar'' ''STANDARD'',
       Log ERROR (S3UploadError ''AccessDenied'')]"
    by (simp add: reconcile_file_def example_bucket_def example_client_def
        example_stat_def path_join_def path_name_def upload_file_def bind_io_def return_io_def
        emit_def Let_def)
  show ?thesis
    using upload_failure_is_logged_not_raised
      [OF fails, of "''/backup''" "''a.tar''" True ?bc example_stat "[''b.tar'', ''notes.txt'']"
          "\<lparr>event_type = Created, src_path = ''/backup/a.tar'', is_directory = False\<rparr>"
          "\<lambda>i. 100"
          "[GetSize ''/backup/a.tar'' 100, GetSize ''/backup/a.tar'' 100, Sleep,
            GetSize ''/backup/a.tar'' 100]"]
    by (simp add: polled rest body path_join_def path_name_def example_bucket_fields)
qed

subsection \<open>The watch handler\<close>

lemma uploads_GetSize [simp]: "uploads (GetSize p n # tr) = uploads tr"
  by (simp add: uploads_def)

lemma uploads_Sleep [simp]: "uploads (Sleep # tr) = uploads tr"
  by (simp add: uploads_def)

lemma uploads_poll_rounds [simp]: "uploads (poll_rounds p g n k) = []"
  by (induction k arbitrary: n) simp_all

lemma uploads_poll_trace [simp]: "uploads (poll_trace p g k) = []"
  by (simp add: poll_trace_def del: poll_rounds.simps)

lemma stability_loop_cases:
  fixes g :: "nat \<Rightarrow> nat"
  shows "(\<exists>k. g (2 * k + 2) = g (2 * k + 1) \<and>
              stability_loop p g 0 (- 1) [] = Some (poll_trace p g k)) \<or>
         ((\<forall>k. g (2 * k + 2) \<noteq> g (2 * k + 1)) \<and> stability_loop p g 0 (- 1) [] = None)"
proof (cases "\<exists>k. g (2 * k + 2) = g (2 * k + 1)")
  case True
  then obtain k where "g (2 * k + 2) = g (2 * k + 1)" ..
  from first_stable_round[OF this] obtain m where
    m: "\<forall>j<m. g (2 * j + 2) \<noteq> g (2 * j + 1)" "g (2 * m + 2) = g (2 * m + 1)" by blast
  from stability_loop_leaves[OF m] m(2) show ?thesis by blast
next
  case False
  then have "\<forall>k. g (2 * k + 2) \<noteq> g (2 * k + 1)" by blast
  then show ?thesis using stability_loop_None by blast
qed

lemma upload_file_begins:
  "\<exists>rest. fst (upload_file b p) =
     Log INFO (UploadingFile p) #
     S3UploadFile p (bucket_name b) (path_name p) (storage_class b) # rest"
  by (auto simp: upload_file_def Let_def split: upload_outcome.splits)

lemma process_stable:
  assumes "stability_loop (src_path ev) g 0 (- 1) [] = Some polled"
  shows "process b g ev =
           Some (Log INFO (ProcessingNewFile (src_path ev)) # polled @
                   fst (upload_file b (src_path ev)),
                 snd (upload_file b (src_path ev)))"
  using assms by (simp add: process_def)

lemma process_unstable:
  assumes "stability_loop (src_path ev) g 0 (- 1) [] = None"
  shows "process b g ev = None"
  using assms by (simp add: process_def)

lemma dispatch_no_match:
  "\<not> BACKUP_REGEX_match (src_path ev) \<Longrightarrow> dispatch b g ev = Some ([], Inr ())"
  by (simp add: dispatch_def return_io_def)

lemma dispatch_created:
  "BACKUP_REGEX_match (src_path ev) \<Longrightarrow> event_type ev = Created \<Longrightarrow>
     dispatch b g ev = process b g ev"
  by (simp add: dispatch_def on_created_def)

text \<open>
  C6. A creation event whose path the pattern does not match makes the handler do
  nothing: no read of the size, no upload. For a creation event whose path matches, the
  handler returns exactly when the polling loop does, and its run then is: the log line,
  the polling up to the first equal pair of reads across a sleep, and after it the one
  call of the client's \<open>upload_file\<close> for that path. \<open>foo.txt\<close> does not match and
  \<open>backup.tar\<close> does.
\<close>

theorem created_event_uploads_once_after_stable:
  "(\<not> BACKUP_REGEX_match (src_path ev) \<longrightarrow> dispatch b g ev = Some ([], Inr ())) \<and>
   (BACKUP_REGEX_match (src_path ev) \<and> event_type ev = Created \<longrightarrow>
      (dispatch b g ev = None \<longleftrightarrow> (\<forall>k. g (2 * k + 2) \<noteq> g (2 * k + 1))) \<and>
      (\<forall>tr r. dispatch b g ev = Some (tr, r) \<longrightarrow>
         uploads tr =
           [S3UploadFile (src_path ev) (bucket_name b) (path_name (src_path ev)) (storage_class b)] \<and>
         (\<exists>k rest. g (2 * k + 2) = g (2 * k + 1) \<and>
            tr = Log INFO (ProcessingNewFile (src_path ev)) # poll_trace (src_path ev) g k @
                 Log INFO (UploadingFile (src_path ev)) #
                 S3UploadFile (src_path ev) (bucket_name b) (path_name (src_path ev))
                   (storage_class b) # rest))) \<and>
   \<not> BACKUP_REGEX_match ''foo.txt'' \<and> BACKUP_REGEX_match ''backup.tar''"
proof (intro conjI impI)
  assume "\<not> BACKUP_REGEX_match (src_path ev)"
  then show "dispatch b g ev = Some ([], Inr ())" by (rule dispatch_no_match)
next
  assume "BACKUP_REGEX_match (src_path ev) \<and> event_type ev = Created"
  then have d: "dispatch b g ev = process b g ev" by (simp add: dispatch_created)
  from stability_loop_cases[of g "src_path ev"]
  show "dispatch b g ev = None \<longleftrightarrow> (\<forall>k. g (2 * k + 2) \<noteq> g (2 * k + 1))"
  proof
    assume "\<exists>k. g (2 * k + 2) = g (2 * k + 1) \<and>
              stability_loop (src_path ev) g 0 (- 1) [] = Some (poll_trace (src_path ev) g k)"
    then obtain k where k: "g (2 * k + 2) = g (2 * k + 1)"
      "stability_loop (src_path ev) g 0 (- 1) [] = Some (poll_trace (src_path ev) g k)" by blast
    from process_stable[OF k(2)] k(1) show ?thesis by (auto simp: d)
  next
    assume "(\<forall>k. g (2 * k + 2) \<noteq> g (2 * k + 1)) \<and> stability_loop (src_path ev) g 0 (- 1) [] = None"
    then show ?thesis by (simp add: d process_unstable)
  qed
next
  assume "BACKUP_REGEX_match (src_path ev) \<and> event_type ev = Created"
  then have d: "dispatch b g ev = process b g ev" by (simp add: dispatch_created)
  show "\<forall>tr r. dispatch b g ev = Some (tr, r) \<longrightarrow>
         uploads tr =
           [S3UploadFile (src_path ev) (bucket_name b) (path_name (src_path ev)) (storage_class b)] \<and>
         (\<exists>k rest. g (2 * k + 2) = g (2 * k + 1) \<and>
            tr = Log INFO (ProcessingNewFile (src_path ev)) # poll_trace (src_path ev) g k @
                 Log INFO (UploadingFile (src_path ev)) #
                 S3UploadFile (src_path ev) (bucket_name b) (path_name (src_path ev))
                   (storage_class b) # rest)"
  proof (intro allI impI)
    fix tr r
    assume run: "dispatch b g ev = Some (tr, r)"
    from stability_loop_cases[of g "src_path ev"] run
    obtain k where k: "g (2 * k + 2) = g (2 * k + 1)"
      "stability_loop (src_path ev) g 0 (- 1) [] = Some (poll_trace (src_path ev) g k)"
      by (auto simp: d process_unstable)
    from process_stable[OF k(2), of b] run
    have tr: "tr = Log INFO (ProcessingNewFile (src_path ev)) # poll_trace (src_path ev) g k @
                   fst (upload_file b (src_path ev))"
      by (simp add: d)
    obtain rest where rest: "fst (upload_file b (src_path ev)) =
        Log INFO (UploadingFile (src_path ev)) #
        S3UploadFile (src_path ev) (bucket_name b) (path_name (src_path ev)) (storage_class b) # rest"
      using upload_file_begins by blast
    have one: "uploads tr =
           [S3UploadFile (src_path ev) (bucket_name b) (path_name (src_path ev)) (storage_class b)]"
      by (simp add: tr uploads_upload_file)
    have "tr = Log INFO (ProcessingNewFile (src_path ev)) # poll_trace (src_path ev) g k @
                 Log INFO (UploadingFile (src_path ev)) #
                 S3UploadFile (src_path ev) (bucket_name b) (path_name (src_path ev))
                   (storage_class b) # rest"
      by (simp add: tr rest)
    with one k(1) show "uploads tr =
           [S3UploadFile (src_path ev) (bucket_name b) (path_name (src_path ev)) (storage_class b)] \<and>
         (\<exists>k rest. g (2 * k + 2) = g (2 * k + 1) \<and>
            tr = Log INFO (ProcessingNewFile (src_path ev)) # poll_trace (src_path ev) g k @
                 Log INFO (UploadingFile (src_path ev)) #
                 S3UploadFile (src_path ev) (bucket_name b) (path_name (src_path ev))
                   (storage_class b) # rest)"
      by blast
  qed
next
  show "\<not> BACKUP_REGEX_match ''foo.txt''"
    by (simp add: BACKUP_REGEX_match_def tar_to_end_def lower_def lower_char_def)
next
  show "BACKUP_REGEX_match ''backup.tar''"
    by (simp add: BACKUP_REGEX_match_def tar_to_end_def lower_def lower_char_def)
qed

text \<open>A creation event for \<open>foo.txt\<close> does nothing. A creation event for \<open>backup.tar\<close>,
  read as 10, 10, 20, 20 and 20 bytes, is polled for two rounds and uploaded once; read
  with a size that grows at every read, it is never uploaded.\<close>

theorem created_event_uploads_once_after_stable_witness:
  "dispatch (example_bucket UploadOk) (\<lambda>i. 100)
     \<lparr>event_type = Created, src_path = ''foo.txt'', is_directory = False\<rparr> = Some ([], Inr ()) \<and>
   dispatch (example_bucket UploadOk) (\<lambda>i. i)
     \<lparr>event_type = Created, src_path = ''backup.tar'', is_directory = False\<rparr> = None \<and>
   uploads (fst (the (dispatch (example_bucket UploadOk) ((!) [10, 10, 20, 20, 20])
     \<lparr>event_type = Created, src_path = ''backup.tar'', is_directory = False\<rparr>))) =
     [S3UploadFile ''backup.tar'' ''backups'' ''backup.tar'' ''STANDARD'']"
proof -
  let ?b = "example_bucket UploadOk"
  let ?foo = "\<lparr>event_type = Created, src_path = ''foo.txt'', is_directory = False\<rparr>"
  let ?tar = "\<lparr>event_type = Created, src_path = ''backup.tar'', is_directory = False\<rparr>"
  have m: "\<not> BACKUP_REGEX_match ''foo.txt''" "BACKUP_REGEX_match ''backup.tar''"
    by (simp_all add: BACKUP_REGEX_match_def tar_to_end_def lower_def lower_char_def)
  have grows: "\<forall>k::nat. 2 * k + 2 \<noteq> 2 * k + 1" by simp
  have run: "dispatch ?b ((!) [10, 10, 20, 20, 20]) ?tar =
     Some ([Log INFO (ProcessingNewFile ''backup.tar''),
            GetSize ''backup.tar'' 10, GetSize ''backup.tar'' 10, Sleep,
            GetSize ''backup.tar'' 20, GetSize ''backup.tar'' 20, Sleep,
            GetSize ''backup.tar'' 20,
            Log INFO (UploadingFile ''backup.tar''),
            S3UploadFile ''backup.tar'' ''backups'' ''backup.tar'' ''STANDARD'',
            Log INFO (UploadedFile ''backup.tar'' ''backups'' ''STANDARD'')], Inr ())"
    by (simp add: dispatch_def on_created_def process_def m stability_loop.simps upload_file_def
        example_bucket_def example_client_def path_name_def Let_def)
  have 1: "dispatch ?b (\<lambda>i. 100) ?foo = Some ([], Inr ())"
    using created_event_uploads_once_after_stable[of ?foo ?b "\<lambda>i. 100"] m by simp
  have 2: "dispatch ?b (\<lambda>i. i) ?tar = None"
    using created_event_uploads_once_after_stable[of ?tar ?b "\<lambda>i. i"] m grows by simp
  have 3: "uploads (fst (the (dispatch ?b ((!) [10, 10, 20, 20, 20]) ?tar))) =
     [S3UploadFile ''backup.tar'' ''backups'' ''backup.tar'' ''STANDARD'']"
    using created_event_uploads_once_after_stable[of ?tar ?b "(!) [10, 10, 20, 20, 20]"] m run
    by (simp add: example_bucket_fields path_name_def)
  from 1 2 3 show ?thesis by blast
qed

subsection \<open>Startup\<close>

lemma bind_opt_returns:
  "snd m = Inr x \<Longrightarrow>
     bind_opt m f = (case f x of None \<Rightarrow> None | Some (tr', r) \<Rightarrow> Some (fst m @ tr', r))"
  by (cases m) (auto simp: bind_opt_def split: option.splits)

lemma S3Bucket_init_run:
  "S3Bucket_init client bn region sc =
     ([Log DEBUG CreatingS3Client, Boto3Client region],
      Inr \<lparr>bucket_name = bn, storage_class = sc, s3_client = client region\<rparr>)"
  by (simp add: S3Bucket_init_def)

lemma main_six:
  assumes "length argv = 6"
  shows "main e argv =
     (case (if path_exists e (argv ! 1) then
              bind_opt (list_bucket_or_exit
                          \<lparr>bucket_name = argv ! 2, storage_class = argv ! 4,
                           s3_client = boto3_client e (argv ! 3)\<rparr>) (\<lambda>bucket_contents.
              bind_opt (iterdir e (argv ! 1)) (\<lambda>children.
              bind_opt (reconcile \<lparr>bucket_name = argv ! 2, storage_class = argv ! 4,
                                   s3_client = boto3_client e (argv ! 3)\<rparr>
                          (parse_upload_missing_files (argv ! 5)) bucket_contents
                          (argv ! 1) (st_size e) (local_files children)) (\<lambda>_.
              bind_opt (emit [Log INFO (MonitoringPath (argv ! 1))]) (\<lambda>_.
              run (FileWatcher_init (argv ! 1)
                     \<lparr>bucket_name = argv ! 2, storage_class = argv ! 4,
                      s3_client = boto3_client e (argv ! 3)\<rparr>) (interrupt e)))))
            else Some (emit [Log CRITICAL (MonitorPathMissing (argv ! 1))])) of
        None \<Rightarrow> None
      | Some (tr', r) \<Rightarrow> Some ([Log DEBUG CreatingS3Client, Boto3Client (argv ! 3)] @ tr', r))"
  using assms unfolding main_def Let_def S3Bucket_init_def
  by (subst bind_opt_def) simp

text \<open>
  C8. With an argument count other than five (\<open>sys.argv\<close> not of length six) the program
  logs a critical message and ends without an exit call, having made no other call. With
  five arguments and a monitor path that does not exist, it creates the client, logs a
  critical message and ends the same way: no listing, no upload, no observer. With five
  arguments and an existing path, a listing that raises, \<open>NoSuchBucket\<close> or any other
  exception, ends the program by \<open>sys.exit(1)\<close> right after the listing call: no upload
  and no observer.
\<close>

theorem fatal_startup_conditions:
  "(length argv \<noteq> 6 \<longrightarrow>
      main e argv = Some ([Log CRITICAL (IncorrectArguments argv)], Inr ())) \<and>
   (length argv = 6 \<and> \<not> path_exists e (argv ! 1) \<longrightarrow>
      main e argv =
        Some ([Log DEBUG CreatingS3Client, Boto3Client (argv ! 3),
               Log CRITICAL (MonitorPathMissing (argv ! 1))], Inr ())) \<and>
   (length argv = 6 \<and> path_exists e (argv ! 1) \<and>
    list_objects_v2 (boto3_client e (argv ! 3)) (argv ! 2) = RaisesNoSuchBucket err \<longrightarrow>
      main e argv =
        Some ([Log DEBUG CreatingS3Client, Boto3Client (argv ! 3), ListObjectsV2 (argv ! 2),
               Log ERROR (ErrorListingObjects err)], Inl (SystemExit 1))) \<and>
   (length argv = 6 \<and> path_exists e (argv ! 1) \<and>
    list_objects_v2 (boto3_client e (argv ! 3)) (argv ! 2) = RaisesClientError err \<longrightarrow>
      main e argv =
        Some ([Log DEBUG CreatingS3Client, Boto3Client (argv ! 3), ListObjectsV2 (argv ! 2)],
              Inl (SystemExit 1)))"
proof (intro conjI impI)
  assume "length argv \<noteq> 6"
  then show "main e argv = Some ([Log CRITICAL (IncorrectArguments argv)], Inr ())"
    by (simp add: main_def emit_def)
next
  assume "length argv = 6 \<and> \<not> path_exists e (argv ! 1)"
  then show "main e argv =
        Some ([Log DEBUG CreatingS3Client, Boto3Client (argv ! 3),
               Log CRITICAL (MonitorPathMissing (argv ! 1))], Inr ())"
    by (simp add: main_six emit_def)
next
  assume a: "length argv = 6 \<and> path_exists e (argv ! 1) \<and>
    list_objects_v2 (boto3_client e (argv ! 3)) (argv ! 2) = RaisesNoSuchBucket err"
  then have "list_bucket_or_exit \<lparr>bucket_name = argv ! 2, storage_class = argv ! 4,
                           s3_client = boto3_client e (argv ! 3)\<rparr> =
      ([ListObjectsV2 (argv ! 2), Log ERROR (ErrorListingObjects err)], Inl (SystemExit 1))"
    by (simp add: list_bucket_or_exit_def list_bucket_def)
  with a show "main e argv =
        Some ([Log DEBUG CreatingS3Client, Boto3Client (argv ! 3), ListObjectsV2 (argv ! 2),
               Log ERROR (ErrorListingObjects err)], Inl (SystemExit 1))"
    by (simp add: main_six bind_opt_def)
next
  assume a: "length argv = 6 \<and> path_exists e (argv ! 1) \<and>
    list_objects_v2 (boto3_client e (argv ! 3)) (argv ! 2) = RaisesClientError err"
  then have "list_bucket_or_exit \<lparr>bucket_name = argv ! 2, storage_class = argv ! 4,
                           s3_client = boto3_client e (argv ! 3)\<rparr> =
      ([ListObjectsV2 (argv ! 2)], Inl (SystemExit 1))"
    by (simp add: list_bucket_or_exit_def list_bucket_def)
  with a show "main e argv =
        Some ([Log DEBUG CreatingS3Client, Boto3Client (argv ! 3), ListObjectsV2 (argv ! 2)],
              Inl (SystemExit 1))"
    by (simp add: main_six bind_opt_def)
qed

lemma example_argv_nth:
  "length (example_argv flag) = 6"
  "example_argv flag ! 1 = ''/backup''"
  "example_argv flag ! Suc 0 = ''/backup''"
  "example_argv flag ! 2 = ''backups''"
  "example_argv flag ! 3 = ''us-east-1''"
  "example_argv flag ! 4 = ''STANDARD''"
  "example_argv flag ! 5 = flag"
  by (simp_all add: example_argv_def numeral_eq_Suc)

lemma nth_numeral_Cons: "(x # xs) ! numeral n = xs ! (numeral n - 1)"
  by (simp add: numeral_eq_Suc)

text \<open>Four arguments; five arguments with the monitor path \<open>/missing\<close>; the example
  directory with a bucket that does not exist; the same with access denied.\<close>

theorem fatal_startup_conditions_witness:
  "main (example_env UploadOk (RaisesNoSuchBucket ''backups''))
        [''amazon-s3-backup.py'', ''/backup'', ''backups'', ''us-east-1'', ''STANDARD''] =
     Some ([Log CRITICAL (IncorrectArguments
              [''amazon-s3-backup.py'', ''/backup'', ''backups'', ''us-east-1'', ''STANDARD''])],
           Inr ()) \<and>
   main (example_env UploadOk (RaisesNoSuchBucket ''backups''))
        [''amazon-s3-backup.py'', ''/missing'', ''backups'', ''us-east-1'', ''STANDARD'', ''true''] =
     Some ([Log DEBUG CreatingS3Client, Boto3Client ''us-east-1'',
            Log CRITICAL (MonitorPathMissing ''/missing'')], Inr ()) \<and>
   main (example_env UploadOk (RaisesNoSuchBucket ''backups'')) (example_argv ''true'') =
     Some ([Log DEBUG CreatingS3Client, Boto3Client ''us-east-1'', ListObjectsV2 ''backups'',
            Log ERROR (ErrorListingObjects ''backups'')], Inl (SystemExit 1)) \<and>
   main (example_env UploadOk (RaisesClientError ''AccessDenied'')) (example_argv ''true'') =
     Some ([Log DEBUG CreatingS3Client, Boto3Client ''us-east-1'', ListObjectsV2 ''backups''],
           Inl (SystemExit 1))"
proof -
  let ?e = "example_env UploadOk (RaisesNoSuchBucket ''backups'')"
  let ?e' = "example_env UploadOk (RaisesClientError ''AccessDenied'')"
  let ?four = "[''amazon-s3-backup.py'', ''/backup'', ''backups'', ''us-east-1'', ''STANDARD'']"
  let ?missing = "[''amazon-s3-backup.py'', ''/missing'', ''backups'', ''us-east-1'', ''STANDARD'', ''true'']"
  have 1: "main ?e ?four = Some ([Log CRITICAL (IncorrectArguments ?four)], Inr ())"
    using fatal_startup_conditions[of ?four ?e] by simp
  have 2: "main ?e ?missing =
     Some ([Log DEBUG CreatingS3Client, Boto3Client ''us-east-1'',
            Log CRITICAL (MonitorPathMissing ''/missing'')], Inr ())"
    using fatal_startup_conditions[of ?missing ?e]
    by (simp add: path_exists_def example_env_def nth_numeral_Cons)
  have 3: "main ?e (example_argv ''true'') =
     Some ([Log DEBUG CreatingS3Client, Boto3Client ''us-east-1'', ListObjectsV2 ''backups'',
            Log ERROR (ErrorListingObjects ''backups'')], Inl (SystemExit 1))"
    using fatal_startup_conditions[of "example_argv ''true''" ?e "''backups''"]
    by (simp add: example_argv_nth path_exists_def example_env_def example_client_def)
  have 4: "main ?e' (example_argv ''true'') =
     Some ([Log DEBUG CreatingS3Client, Boto3Client ''us-east-1'', ListObjectsV2 ''backups''],
           Inl (SystemExit 1))"
    using fatal_startup_conditions[of "example_argv ''true''" ?e' "''AccessDenied''"]
    by (simp add: example_argv_nth path_exists_def example_env_def example_client_def)
  from 1 2 3 4 show ?thesis by blast
qed

subsection \<open>What the reconciler and the watcher look at\<close>

lemma considered_append [simp]: "considered (xs @ ys) = considered xs @ considered ys"
  by (induction xs rule: considered.induct) simp_all

lemma schedules_append [simp]: "schedules (xs @ ys) = schedules xs @ schedules ys"
  by (induction xs rule: schedules.induct) simp_all

lemma considered_upload_file [simp]: "considered (fst (upload_file b p)) = []"
  by (auto simp: upload_file_def Let_def split: upload_outcome.splits)

lemma schedules_upload_file [simp]: "schedules (fst (upload_file b p)) = []"
  by (auto simp: upload_file_def Let_def split: upload_outcome.splits)

lemma considered_reconcile_file [simp]:
  "considered (fst (reconcile_file b umf bc mp stat f)) = [path_join mp f]"
  by (cases "filter (\<lambda>r. obj_name r = f) bc") (auto simp: reconcile_file_def Let_def)

lemma schedules_reconcile_file [simp]:
  "schedules (fst (reconcile_file b umf bc mp stat f)) = []"
  by (cases "filter (\<lambda>r. obj_name r = f) bc") (auto simp: reconcile_file_def Let_def)

lemma considered_reconcile:
  "snd (reconcile b umf bc mp stat files) = Inr () \<Longrightarrow>
     considered (fst (reconcile b umf bc mp stat files)) = map (path_join mp) files"
  by (induction files) (auto simp: reconcile_Cons split: sum.splits)

lemma schedules_reconcile [simp]: "schedules (fst (reconcile b umf bc mp stat files)) = []"
  by (induction files) (auto simp: reconcile_Cons split: sum.splits)

lemma considered_replicate_Sleep [simp]: "considered (replicate k Sleep) = []"
  by (induction k) simp_all

lemma schedules_replicate_Sleep [simp]: "schedules (replicate k Sleep) = []"
  by (induction k) simp_all

lemma run_interrupted:
  "run (FileWatcher_init mp b) (Some k) =
     Some ([ObserverSchedule mp True, ObserverStart] @ replicate k Sleep @
           [ObserverStop, ObserverJoin], Inr ())"
  by (simp add: run_def start_def schedule_def stop_def FileWatcher_init_def bind_io_def emit_def)

lemma list_bucket_or_exit_response:
  assumes "list_objects_v2 (s3_client b) (bucket_name b) = ListResponse r"
  shows "\<exists>bc. list_bucket_or_exit b =
           (ListObjectsV2 (bucket_name b) #
            (if IsTruncated r = Some True then [Log WARNING TruncatedResults] else []), Inr bc)"
  using assms by (simp add: list_bucket_or_exit_def list_bucket_def)

lemma main_reconciles_then_watches:
  assumes six: "length argv = 6"
    and dir: "lookup e (argv ! 1) = Some (Dir n children)"
    and listing: "list_objects_v2 (boto3_client e (argv ! 3)) (argv ! 2) = ListResponse r"
    and returns: "\<forall>p b k c err.
                    client_upload_file (boto3_client e (argv ! 3)) p b k c \<noteq> RaisesUploadOther err"
    and intr: "interrupt e = Some i"
  shows "\<exists>bc. main e argv =
     Some ([Log DEBUG CreatingS3Client, Boto3Client (argv ! 3), ListObjectsV2 (argv ! 2)] @
           (if IsTruncated r = Some True then [Log WARNING TruncatedResults] else []) @
           fst (reconcile \<lparr>bucket_name = argv ! 2, storage_class = argv ! 4,
                           s3_client = boto3_client e (argv ! 3)\<rparr>
                  (parse_upload_missing_files (argv ! 5)) bc (argv ! 1) (st_size e)
                  (local_files children)) @
           [Log INFO (MonitoringPath (argv ! 1)), ObserverSchedule (argv ! 1) True, ObserverStart] @
           replicate i Sleep @ [ObserverStop, ObserverJoin], Inr ())"
proof -
  let ?b = "\<lparr>bucket_name = argv ! 2, storage_class = argv ! 4,
             s3_client = boto3_client e (argv ! 3)\<rparr>"
  have "list_objects_v2 (s3_client ?b) (bucket_name ?b) = ListResponse r"
    using listing by simp
  from list_bucket_or_exit_response[OF this] obtain bc where
    bc: "list_bucket_or_exit ?b =
           (ListObjectsV2 (argv ! 2) #
            (if IsTruncated r = Some True then [Log WARNING TruncatedResults] else []), Inr bc)"
    by auto
  have ex: "path_exists e (argv ! 1)" using dir by (simp add: path_exists_def)
  have it: "iterdir e (argv ! 1) = ([], Inr children)"
    using dir by (simp add: iterdir_def return_io_def)
  have "\<forall>p err. client_upload_file (s3_client ?b) p (bucket_name ?b) (path_name p) (storage_class ?b)
            \<noteq> RaisesUploadOther err"
    using returns by simp
  then have rec: "snd (reconcile ?b (parse_upload_missing_files (argv ! 5)) bc (argv ! 1) (st_size e)
                    (local_files children)) = Inr ()"
    by (rule reconcile_returns)
  have "main e argv =
     Some ([Log DEBUG CreatingS3Client, Boto3Client (argv ! 3), ListObjectsV2 (argv ! 2)] @
           (if IsTruncated r = Some True then [Log WARNING TruncatedResults] else []) @
           fst (reconcile ?b (parse_upload_missing_files (argv ! 5)) bc (argv ! 1) (st_size e)
                  (local_files children)) @
           [Log INFO (MonitoringPath (argv ! 1)), ObserverSchedule (argv ! 1) True, ObserverStart] @
           replicate i Sleep @ [ObserverStop, ObserverJoin], Inr ())"
    by (simp add: main_six[OF six] ex bc it bind_opt_returns[OF rec] bind_opt_def[of "(_, _)"]
        emit_def run_interrupted intr del: One_nat_def)
  then show ?thesis by blast
qed

text \<open>
  C9. When the main program gets through startup, the paths its reconciliation decides on
  are the monitor path joined with the name of every regular file among the immediate
  children of the monitored directory, in the order of the enumeration: no pattern is
  applied to the names, and nothing below a subdirectory is looked at. Its one
  subscription is on the monitor path with \<open>recursive = True\<close>. The handler of that
  subscription uploads only for a creation event whose path matches the \<open>.tar\<close> pattern,
  wherever under the tree the path is, and does upload for such an event once its size is
  stable.
\<close>

theorem reconciler_flat_any_name_watcher_recursive_tar_only:
  "(length argv = 6 \<and> lookup e (argv ! 1) = Some (Dir n children) \<and>
    list_objects_v2 (boto3_client e (argv ! 3)) (argv ! 2) = ListResponse r \<and>
    (\<forall>p b k c err. client_upload_file (boto3_client e (argv ! 3)) p b k c \<noteq> RaisesUploadOther err) \<and>
    interrupt e = Some i \<longrightarrow>
      (\<exists>tr. main e argv = Some (tr, Inr ()) \<and>
            considered tr =
              map (\<lambda>x. path_join (argv ! 1) (node_name x)) (filter is_file children) \<and>
            schedules tr = [(argv ! 1, True)])) \<and>
   (\<forall>tr res. dispatch b g ev = Some (tr, res) \<and> uploads tr \<noteq> [] \<longrightarrow>
      event_type ev = Created \<and> BACKUP_REGEX_match (src_path ev)) \<and>
   (event_type ev = Created \<and> BACKUP_REGEX_match (src_path ev) \<and> g 2 = g 1 \<longrightarrow>
      (\<exists>tr res. dispatch b g ev = Some (tr, res) \<and>
         uploads tr =
           [S3UploadFile (src_path ev) (bucket_name b) (path_name (src_path ev)) (storage_class b)]))"
proof (intro conjI impI allI)
  assume a: "length argv = 6 \<and> lookup e (argv ! 1) = Some (Dir n children) \<and>
    list_objects_v2 (boto3_client e (argv ! 3)) (argv ! 2) = ListResponse r \<and>
    (\<forall>p b k c err. client_upload_file (boto3_client e (argv ! 3)) p b k c \<noteq> RaisesUploadOther err) \<and>
    interrupt e = Some i"
  let ?b = "\<lparr>bucket_name = argv ! 2, storage_class = argv ! 4,
             s3_client = boto3_client e (argv ! 3)\<rparr>"
  from a main_reconciles_then_watches[of argv e n children r i] obtain bc where
    run: "main e argv =
     Some ([Log DEBUG CreatingS3Client, Boto3Client (argv ! 3), ListObjectsV2 (argv ! 2)] @
           (if IsTruncated r = Some True then [Log WARNING TruncatedResults] else []) @
           fst (reconcile ?b (parse_upload_missing_files (argv ! 5)) bc (argv ! 1) (st_size e)
                  (local_files children)) @
           [Log INFO (MonitoringPath (argv ! 1)), ObserverSchedule (argv ! 1) True, ObserverStart] @
           replicate i Sleep @ [ObserverStop, ObserverJoin], Inr ())"
    by blast
  have "\<forall>p err. client_upload_file (s3_client ?b) p (bucket_name ?b) (path_name p) (storage_class ?b)
            \<noteq> RaisesUploadOther err"
    using a by simp
  then have rec: "snd (reconcile ?b (parse_upload_missing_files (argv ! 5)) bc (argv ! 1) (st_size e)
                    (local_files children)) = Inr ()"
    by (rule reconcile_returns)
  have cons: "considered (fst (reconcile ?b (parse_upload_missing_files (argv ! 5)) bc (argv ! 1)
                     (st_size e) (local_files children))) =
                map (path_join (argv ! 1)) (local_files children)"
    by (rule considered_reconcile[OF rec])
  have names: "map (path_join (argv ! 1)) (local_files children) =
                 map (\<lambda>x. path_join (argv ! 1) (node_name x)) (filter is_file children)"
    by (simp add: local_files_def comp_def)
  show "\<exists>tr. main e argv = Some (tr, Inr ()) \<and>
            considered tr =
              map (\<lambda>x. path_join (argv ! 1) (node_name x)) (filter is_file children) \<and>
            schedules tr = [(argv ! 1, True)]"
    unfolding run
    by (rule exI, intro conjI, rule refl) (simp_all add: cons names del: One_nat_def)
next
  fix tr res
  assume a: "dispatch b g ev = Some (tr, res) \<and> uploads tr \<noteq> []"
  show "event_type ev = Created"
  proof (rule ccontr)
    assume "event_type ev \<noteq> Created"
    then have "dispatch b g ev = Some ([], Inr ())"
      by (cases "event_type ev") (simp_all add: dispatch_def return_io_def)
    with a show False by auto
  qed
  show "BACKUP_REGEX_match (src_path ev)"
  proof (rule ccontr)
    assume "\<not> BACKUP_REGEX_match (src_path ev)"
    then have "dispatch b g ev = Some ([], Inr ())" by (rule dispatch_no_match)
    with a show False by auto
  qed
next
  assume a: "event_type ev = Created \<and> BACKUP_REGEX_match (src_path ev) \<and> g 2 = g 1"
  then have d: "dispatch b g ev = process b g ev" by (simp add: dispatch_created)
  have "stability_loop (src_path ev) g 0 (- 1) [] = Some (poll_trace (src_path ev) g 0)"
    using a by (intro stability_loop_leaves) (simp_all add: numeral_2_eq_2)
  from process_stable[OF this, of b]
  show "\<exists>tr res. dispatch b g ev = Some (tr, res) \<and>
         uploads tr =
           [S3UploadFile (src_path ev) (bucket_name b) (path_name (src_path ev)) (storage_class b)]"
    by (simp add: d uploads_upload_file)
qed


text \<open>The example directory holds \<open>a.tar\<close>, \<open>b.tar\<close>, \<open>notes.txt\<close> and a subdirectory
  \<open>old\<close> with \<open>c.tar\<close> in it. The reconciliation decides on the three files at the top,
  \<open>notes.txt\<close> among them, and not on \<open>old/c.tar\<close>; the watcher uploads for a creation
  event at \<open>old/c.tar\<close> and not for one at \<open>notes.txt\<close>.\<close>

theorem reconciler_flat_any_name_watcher_recursive_tar_only_witness:
  "(\<exists>tr. main (example_env UploadOk
               (ListResponse \<lparr>IsTruncated = None,
                  Contents = Some [\<lparr>Key = ''b.tar'', Size = 200, LastModified = 0\<rparr>]\<rparr>))
             (example_argv ''false'') = Some (tr, Inr ()) \<and>
         considered tr = [''/backup/a.tar'', ''/backup/b.tar'', ''/backup/notes.txt''] \<and>
         schedules tr = [(''/backup'', True)]) \<and>
   (\<exists>tr res. dispatch (example_bucket UploadOk) (\<lambda>i. 200)
                \<lparr>event_type = Created, src_path = ''/backup/old/c.tar'', is_directory = False\<rparr> =
                Some (tr, res) \<and>
              uploads tr = [S3UploadFile ''/backup/old/c.tar'' ''backups'' ''c.tar'' ''STANDARD'']) \<and>
   \<not> (\<exists>tr res. dispatch (example_bucket UploadOk) (\<lambda>i. 200)
                \<lparr>event_type = Created, src_path = ''/backup/notes.txt'', is_directory = False\<rparr> =
                Some (tr, res) \<and> uploads tr \<noteq> [])"
proof -
  let ?ls = "ListResponse \<lparr>IsTruncated = None,
                  Contents = Some [\<lparr>Key = ''b.tar'', Size = 200, LastModified = 0\<rparr>]\<rparr>"
  let ?e = "example_env UploadOk ?ls"
  let ?c = "\<lparr>event_type = Created, src_path = ''/backup/old/c.tar'', is_directory = False\<rparr>"
  let ?n = "\<lparr>event_type = Created, src_path = ''/backup/notes.txt'', is_directory = False\<rparr>"
  have world:
    "lookup ?e ''/backup'' =
       Some (Dir ''backup'' [File ''a.tar'', File ''b.tar'', File ''notes.txt'',
                             Dir ''old'' [File ''c.tar'']])"
    "list_objects_v2 (boto3_client ?e ''us-east-1'') ''backups'' = ?ls"
    "\<forall>p b k c err. client_upload_file (boto3_client ?e ''us-east-1'') p b k c \<noteq> RaisesUploadOther err"
    "interrupt ?e = Some 0"
    by (simp_all add: example_env_def example_client_def)
  have m: "BACKUP_REGEX_match ''/backup/old/c.tar''" "\<not> BACKUP_REGEX_match ''/backup/notes.txt''"
    by (simp_all add: BACKUP_REGEX_match_def tar_to_end_def lower_def lower_char_def)
  have 1: "\<exists>tr. main ?e (example_argv ''false'') = Some (tr, Inr ()) \<and>
         considered tr = [''/backup/a.tar'', ''/backup/b.tar'', ''/backup/notes.txt''] \<and>
         schedules tr = [(''/backup'', True)]"
    using reconciler_flat_any_name_watcher_recursive_tar_only
      [of "example_argv ''false''" ?e "''backup''"
          "[File ''a.tar'', File ''b.tar'', File ''notes.txt'', Dir ''old'' [File ''c.tar'']]"
          "\<lparr>IsTruncated = None,
                  Contents = Some [\<lparr>Key = ''b.tar'', Size = 200, LastModified = 0\<rparr>]\<rparr>" 0]
      world
    by (simp add: example_argv_nth path_join_def del: One_nat_def)
  have 2: "\<exists>tr res. dispatch (example_bucket UploadOk) (\<lambda>i. 200) ?c = Some (tr, res) \<and>
              uploads tr = [S3UploadFile ''/backup/old/c.tar'' ''backups'' ''c.tar'' ''STANDARD'']"
    using reconciler_flat_any_name_watcher_recursive_tar_only
      [of _ _ _ _ _ _ "example_bucket UploadOk" "\<lambda>i. 200" ?c] m
    by (simp add: example_bucket_fields path_name_def)
  have 3: "\<not> (\<exists>tr res. dispatch (example_bucket UploadOk) (\<lambda>i. 200) ?n = Some (tr, res) \<and>
              uploads tr \<noteq> [])"
    using reconciler_flat_any_name_watcher_recursive_tar_only
      [of _ _ _ _ _ _ "example_bucket UploadOk" "\<lambda>i. 200" ?n] m
    by auto
  from 1 2 3 show ?thesis by blast
qed

end
